theory Spec2Isabelle
  imports Complex_Main "HOL-Library.Product_Lexorder" "HOL-Library.Sublist" "HOL-Library.Multiset"
begin

section \<open>Values and dates\<close>

text \<open>
  A float64 cell of a DataFrame column.  Finite values are read as real numbers (rounding
  and overflow are not modelled, and neither is the sign of zero); the two infinities and
  the missing-value marker \<open>np.nan\<close> are kept apart, because \<open>dropna\<close> removes
  the latter only.
\<close>

datatype fl = Fin real | PInf | NInf | NaN

text \<open>A cell of any other column of the CSV files: absent, or some text.\<close>

datatype cell = Missing | Present string

text \<open>
  A parsed timestamp at day resolution.  Timestamps are ordered chronologically, which
  for calendar dates is the lexicographic order of (year, month, day).
\<close>

record date =
  year :: int
  month :: nat
  day :: nat

definition date_key :: "date \<Rightarrow> int \<times> nat \<times> nat" where
  "date_key d = (year d, month d, day d)"

definition ymd :: "int \<Rightarrow> nat \<Rightarrow> nat \<Rightarrow> date" where
  "ymd y m d = \<lparr>year = y, month = m, day = d\<rparr>"

text \<open>
  \<open>df["Date"].values.astype("datetime64[M]")\<close>, written back into the column:
  every timestamp becomes the first day of its month.
\<close>

definition month_start :: "date \<Rightarrow> date" where
  "month_start d = d\<lparr>day := 1\<rparr>"

text \<open>
  The number of days from 1970-01-01 to a date of the proleptic Gregorian calendar;
  \<open>.diff().dt.days\<close> is the difference of two such numbers.
\<close>

definition days_from_civil :: "date \<Rightarrow> int" where
  "days_from_civil d =
     (let y = (if month d \<le> 2 then year d - 1 else year d);
          era = y div 400;
          yoe = y - era * 400;
          mp = (int (month d) + 9) mod 12;
          doy = (153 * mp + 2) div 5 + int (day d) - 1;
          doe = yoe * 365 + yoe div 4 - yoe div 100 + doy
      in era * 146097 + doe - 719468)"

section \<open>Date Normalizer\<close>

text \<open>The exceptions that the modelled part of the script can meet.\<close>

datatype exn = ValueError | IndexError | KeyError | OtherException

text \<open>
  \<open>pd.to_datetime\<close> is a function of pandas, so it is a parameter here: called
  with \<open>Some fmt\<close> for \<open>pd.to_datetime(col, format=fmt)\<close> and with \<open>None\<close> for
  \<open>pd.to_datetime(col)\<close>, which infers the format; it returns the parsed column or
  the exception it raises.  A column is a list of raw date strings.
\<close>

type_synonym to_datetime = "string option \<Rightarrow> string list \<Rightarrow> exn + date list"

text \<open>
  The \<open>for fmt in [...]: try ... break / except ValueError: continue / else: ...\<close>
  loop over the gold dates.  Only \<open>ValueError\<close> is caught; the \<open>else\<close> branch runs
  when no format made the loop \<open>break\<close>.
\<close>

fun parse_gold_dates :: "to_datetime \<Rightarrow> string list \<Rightarrow> string list \<Rightarrow> exn + date list" where
  "parse_gold_dates to_dt [] col = to_dt None col"
| "parse_gold_dates to_dt (fmt # fmts) col =
     (case to_dt (Some fmt) col of
        Inr dates \<Rightarrow> Inr dates
      | Inl ValueError \<Rightarrow> parse_gold_dates to_dt fmts col
      | Inl e \<Rightarrow> Inl e)"

definition gold_formats :: "string list" where
  "gold_formats = [''%b %Y'', ''%b %y'', ''%d/%m/%Y'', ''%Y-%m-%d'']"

definition normalize_gold_dates :: "to_datetime \<Rightarrow> string list \<Rightarrow> exn + date list" where
  "normalize_gold_dates to_dt col =
     (case parse_gold_dates to_dt gold_formats col of
        Inl e \<Rightarrow> Inl e
      | Inr dates \<Rightarrow> Inr (map month_start dates))"

text \<open>The CPI dates: \<open>pd.to_datetime(df_cpi["Date"])\<close>, then the same truncation.\<close>

definition normalize_cpi_dates :: "to_datetime \<Rightarrow> string list \<Rightarrow> exn + date list" where
  "normalize_cpi_dates to_dt col =
     (case to_dt None col of
        Inl e \<Rightarrow> Inl e
      | Inr dates \<Rightarrow> Inr (map month_start dates))"

section \<open>Series Merger\<close>

text \<open>
  A row of \<open>df_gold\<close> or of \<open>df_cpi\<close> after date normalisation: the Date column,
  the metric column (\<open>Price\<close> in \<open>df_gold\<close>, \<open>CPI_Combined\<close> in \<open>df_cpi\<close>)
  and whatever other columns the CSV file has (the script drops none of them).
\<close>

record observation =
  obs_Date :: date
  obs_value :: fl
  obs_other :: "cell list"

record merged_row =
  Date :: date
  Price :: fl
  CPI_Combined :: fl
  gold_other :: "cell list"
  cpi_other :: "cell list"

definition join_rows :: "observation \<Rightarrow> observation \<Rightarrow> merged_row" where
  "join_rows g c =
     \<lparr>Date = obs_Date g, Price = obs_value g, CPI_Combined = obs_value c,
      gold_other = obs_other g, cpi_other = obs_other c\<rparr>"

text \<open>
  \<open>pd.merge(df_gold, df_cpi, on='Date', how='inner')\<close>: every pair of a left row and
  a right row with the same key, in the order of the left rows.
\<close>

definition merge_inner :: "observation list \<Rightarrow> observation list \<Rightarrow> merged_row list" where
  "merge_inner df_gold df_cpi =
     concat (map (\<lambda>g. map (join_rows g) (filter (\<lambda>c. obs_Date c = obs_Date g) df_cpi)) df_gold)"

text \<open>\<open>df.sort_values('Date').reset_index(drop=True)\<close>\<close>

definition sort_values_Date :: "merged_row list \<Rightarrow> merged_row list" where
  "sort_values_Date df = sort_key (\<lambda>r. date_key (Date r)) df"

definition merge_and_sort :: "observation list \<Rightarrow> observation list \<Rightarrow> merged_row list" where
  "merge_and_sort df_gold df_cpi = sort_values_Date (merge_inner df_gold df_cpi)"

text \<open>
  \<open>date_diffs = df['Date'].diff().dt.days\<close> followed by \<open>dropna()\<close>: the first entry
  of the difference column is missing and is dropped, the others are the day counts
  between neighbouring rows.
\<close>

definition date_diffs :: "merged_row list \<Rightarrow> int list" where
  "date_diffs df =
     map (\<lambda>(a, b). days_from_civil (Date b) - days_from_civil (Date a)) (zip df (tl df))"

datatype gap_message = WARNING_Possible_date_gaps | OK_Date_sequence_looks_correct

text \<open>
  The gap check prints one of two messages and changes nothing: the checked table is
  handed on as it is.
\<close>

definition check_gaps :: "merged_row list \<Rightarrow> gap_message \<times> merged_row list" where
  "check_gaps df =
     (if list_ex (\<lambda>d. d > 50) (date_diffs df)
      then (WARNING_Possible_date_gaps, df)
      else (OK_Date_sequence_looks_correct, df))"

section \<open>Return Calculator\<close>

text \<open>
  Float arithmetic as far as the percentage changes need it: division, subtraction and
  multiplication with the special values of IEEE 754.  A finite value divided by zero is
  an infinity of its sign, zero divided by zero is \<open>np.nan\<close>; pandas raises nothing.
\<close>

fun fl_div :: "fl \<Rightarrow> fl \<Rightarrow> fl" where
  "fl_div (Fin a) (Fin b) =
     (if b \<noteq> 0 then Fin (a / b) else if 0 < a then PInf else if a < 0 then NInf else NaN)"
| "fl_div (Fin a) PInf = Fin 0"
| "fl_div (Fin a) NInf = Fin 0"
| "fl_div PInf (Fin b) = (if 0 \<le> b then PInf else NInf)"
| "fl_div NInf (Fin b) = (if 0 \<le> b then NInf else PInf)"
| "fl_div _ _ = NaN"

fun fl_sub :: "fl \<Rightarrow> fl \<Rightarrow> fl" where
  "fl_sub (Fin a) (Fin b) = Fin (a - b)"
| "fl_sub (Fin a) PInf = NInf"
| "fl_sub (Fin a) NInf = PInf"
| "fl_sub PInf (Fin b) = PInf"
| "fl_sub PInf NInf = PInf"
| "fl_sub NInf (Fin b) = NInf"
| "fl_sub NInf PInf = NInf"
| "fl_sub _ _ = NaN"

fun fl_mul :: "fl \<Rightarrow> fl \<Rightarrow> fl" where
  "fl_mul (Fin a) (Fin b) = Fin (a * b)"
| "fl_mul PInf (Fin b) = (if 0 < b then PInf else if b < 0 then NInf else NaN)"
| "fl_mul NInf (Fin b) = (if 0 < b then NInf else if b < 0 then PInf else NaN)"
| "fl_mul (Fin a) PInf = (if 0 < a then PInf else if a < 0 then NInf else NaN)"
| "fl_mul (Fin a) NInf = (if 0 < a then NInf else if a < 0 then PInf else NaN)"
| "fl_mul PInf PInf = PInf"
| "fl_mul NInf NInf = PInf"
| "fl_mul PInf NInf = NInf"
| "fl_mul NInf PInf = NInf"
| "fl_mul _ _ = NaN"

text \<open>\<open>Series.shift(1)\<close>: every value moves down one row, the first row gets
  \<open>np.nan\<close>, the length stays.\<close>

definition shift1 :: "fl list \<Rightarrow> fl list" where
  "shift1 xs = take (length xs) (NaN # xs)"

text \<open>
  \<open>Series.pct_change()\<close> computes \<open>data / data.shift(1) - 1\<close>.  (Before pandas
  3 a column with missing cells is forward-filled first; the facts below about
  percentage changes are stated for columns without missing cells, where this makes no
  difference.)
\<close>

definition pct_change :: "fl list \<Rightarrow> fl list" where
  "pct_change xs = map (\<lambda>(cur, prev). fl_sub (fl_div cur prev) (Fin 1)) (zip xs (shift1 xs))"

text \<open>The table after the two assignments \<open>df['Inflation_Rate'] = ...\<close> and
  \<open>df['Gold_Returns'] = ...\<close>.\<close>

record analysis_row = merged_row +
  Inflation_Rate :: fl
  Gold_Returns :: fl

definition with_rates :: "merged_row \<Rightarrow> fl \<Rightarrow> fl \<Rightarrow> analysis_row" where
  "with_rates r i g =
     \<lparr>Date = Date r, Price = Price r, CPI_Combined = CPI_Combined r,
      gold_other = gold_other r, cpi_other = cpi_other r,
      Inflation_Rate = i, Gold_Returns = g\<rparr>"

definition add_returns :: "merged_row list \<Rightarrow> analysis_row list" where
  "add_returns df =
     map (\<lambda>(r, i, g). with_rates r (fl_mul i (Fin 100)) (fl_mul g (Fin 100)))
       (zip df (zip (pct_change (map CPI_Combined df)) (pct_change (map Price df))))"

text \<open>
  \<open>df.dropna()\<close> removes every row that has a missing value in any column.  An
  infinity is not a missing value.
\<close>

definition isna :: "fl \<Rightarrow> bool" where
  "isna v \<longleftrightarrow> v = NaN"

definition row_has_na :: "analysis_row \<Rightarrow> bool" where
  "row_has_na r \<longleftrightarrow>
     isna (Price r) \<or> isna (CPI_Combined r) \<or> Missing \<in> set (gold_other r)
     \<or> Missing \<in> set (cpi_other r) \<or> isna (Inflation_Rate r) \<or> isna (Gold_Returns r)"

definition dropna :: "analysis_row list \<Rightarrow> analysis_row list" where
  "dropna df = filter (\<lambda>r. \<not> row_has_na r) df"

definition return_calculator :: "merged_row list \<Rightarrow> analysis_row list" where
  "return_calculator df = dropna (add_returns df)"

section \<open>Static and Rolling Statistics\<close>

text \<open>
  The statistics read the columns \<open>Inflation_Rate\<close> and \<open>Gold_Returns\<close> of the
  table after \<open>dropna\<close>.  They are modelled for finite values, as lists of real
  numbers of one length.  The least-squares coefficients (\<open>sm.add_constant\<close>,
  \<open>sm.OLS(...).fit().params\<close>) are written out by what they compute, in exact
  arithmetic.  The other float statistics of the libraries (a correlation, R-squared, a
  p-value) are parameters: their values depend on the rounding of float64.
\<close>

definition mean :: "real list \<Rightarrow> real" where
  "mean xs = sum_list xs / real (length xs)"

text \<open>The sum of the products of the deviations from the means.\<close>

definition dev_sum :: "real list \<Rightarrow> real list \<Rightarrow> real" where
  "dev_sum xs ys = sum_list (map (\<lambda>(x, y). (x - mean xs) * (y - mean ys)) (zip xs ys))"

text \<open>
  \<open>x.rolling(window).corr(y)\<close> gives one value per row.  A row with fewer than
  \<open>window\<close> rows up to and including it (\<open>min_periods\<close> is the window) gets
  \<open>np.nan\<close>; any other row gets the correlation that pandas computes, in float64, from
  the \<open>window\<close> rows that end there.  That computation is the parameter
  \<open>window_corr\<close>.
\<close>

type_synonym statistic = "real list \<Rightarrow> real list \<Rightarrow> fl"

definition rolling_corr :: "statistic \<Rightarrow> nat \<Rightarrow> real list \<Rightarrow> real list \<Rightarrow> fl list" where
  "rolling_corr window_corr window x y =
     map (\<lambda>i. if i + 1 < window then NaN
              else window_corr (take window (drop (i + 1 - window) x))
                     (take window (drop (i + 1 - window) y)))
       [0..<length x]"

text \<open>
  \<open>sm.add_constant(x)\<close> for a pandas Series puts a column \<open>const\<close> of ones before
  the column, unless the column is itself a nonzero constant
  (\<open>np.ptp(x) == 0 and np.any(x != 0)\<close>, with \<open>has_constant='skip'\<close>): then the
  column is returned alone.
\<close>

datatype design = With_const "real list" | No_const "real list"

definition add_constant :: "real list \<Rightarrow> design" where
  "add_constant x =
     (if x \<noteq> [] \<and> list_all (\<lambda>v. v = hd x) x \<and> hd x \<noteq> 0 then No_const x else With_const x)"

text \<open>
  \<open>sm.OLS(y, X).fit().params\<close>: the least-squares coefficients, one per column of
  \<open>X\<close>, labelled by the column names.  The fit solves by the pseudo-inverse (method
  \<open>pinv\<close>), so a rank-deficient design raises nothing: it gets the least-squares
  solution of least norm.  An empty design, or \<open>y\<close> and \<open>X\<close> of different lengths,
  raise \<open>ValueError\<close>.
\<close>

definition OLS_fit :: "real list \<Rightarrow> design \<Rightarrow> exn + (string \<times> real) list" where
  "OLS_fit y X =
     (case X of
        With_const x \<Rightarrow>
          if length y \<noteq> length x \<or> x = [] then Inl ValueError
          else if dev_sum x x \<noteq> 0 then
            (let b = dev_sum x y / dev_sum x x
             in Inr [(''const'', mean y - b * mean x), (''Inflation_Rate'', b)])
          else
            (let c = hd x; s = mean y / (1 + c * c)
             in Inr [(''const'', s), (''Inflation_Rate'', c * s)])
      | No_const x \<Rightarrow>
          if length y \<noteq> length x \<or> x = [] then Inl ValueError
          else
            (let q = sum_list (map (\<lambda>v. v * v) x)
             in Inr [(''Inflation_Rate'',
                      if q = 0 then 0 else sum_list (map (\<lambda>(u, v). u * v) (zip x y)) / q)]))"

text \<open>\<open>params['name']\<close>: the coefficient with that label, or \<open>KeyError\<close>.\<close>

definition param_by_name :: "(string \<times> real) list \<Rightarrow> string \<Rightarrow> exn + real" where
  "param_by_name params name =
     (case map_of params name of None \<Rightarrow> Inl KeyError | Some v \<Rightarrow> Inr v)"

text \<open>\<open>params[1]\<close>: an integer key on string labels is read as a position, and a
  position past the end raises \<open>IndexError\<close>.\<close>

definition param_by_position :: "(string \<times> real) list \<Rightarrow> nat \<Rightarrow> exn + real" where
  "param_by_position params k =
     (if k < length params then Inr (snd (params ! k)) else Inl IndexError)"

subsection \<open>Static fit\<close>

text \<open>
  \<open>print(model.summary())\<close> stands between the fit and the reading of the
  coefficients.  The summary includes the Jarque-Bera test of the residuals, which
  raises \<open>ValueError\<close> when there are fewer than two of them; there is one residual per
  row (\<open>nobs\<close>).
\<close>

definition model_summary :: "nat \<Rightarrow> exn + unit" where
  "model_summary nobs = (if nobs < 2 then Inl ValueError else Inr ())"

text \<open>
  The whole-sample regression: \<open>X = sm.add_constant(df['Inflation_Rate'])\<close>,
  \<open>model = sm.OLS(y, X).fit()\<close>, \<open>print(model.summary())\<close>, then
  \<open>model.rsquared\<close>, \<open>model.params['Inflation_Rate']\<close>,
  \<open>model.pvalues['Inflation_Rate']\<close> and \<open>model.params['const']\<close>.  There is no
  other statement between the data and the fit.  R-squared and the p-value are float
  statistics of the fitted model, read without a check; they are the parameters
  \<open>rsquared\<close> and \<open>pvalue\<close>, functions of the two columns.
\<close>

record regression_result =
  r_squared :: fl
  beta :: real
  beta_pvalue :: fl
  alpha :: real

definition static_fit ::
  "statistic \<Rightarrow> statistic \<Rightarrow> real list \<Rightarrow> real list \<Rightarrow> exn + regression_result" where
  "static_fit rsquared pvalue inflation gold_returns =
     (case OLS_fit gold_returns (add_constant inflation) of
        Inl e \<Rightarrow> Inl e
      | Inr params \<Rightarrow>
          (case model_summary (length gold_returns) of
             Inl e \<Rightarrow> Inl e
           | Inr printed \<Rightarrow>
               (case param_by_name params ''Inflation_Rate'' of
                  Inl e \<Rightarrow> Inl e
                | Inr b \<Rightarrow>
                    (case param_by_name params ''const'' of
                       Inl e \<Rightarrow> Inl e
                     | Inr a \<Rightarrow>
                         Inr \<lparr>r_squared = rsquared inflation gold_returns, beta = b,
                              beta_pvalue = pvalue inflation gold_returns, alpha = a\<rparr>))))"

subsection \<open>Rolling beta\<close>

text \<open>
  The body of the loop of \<open>rolling_beta\<close> for one \<open>i\<close>: the two slices
  \<open>iloc[i:i+window]\<close>, the fit, and \<open>params[1]\<close>, inside \<open>try\<close>; the bare
  \<open>except\<close> turns any exception into \<open>np.nan\<close>.
\<close>

definition window_beta :: "real list \<Rightarrow> real list \<Rightarrow> nat \<Rightarrow> nat \<Rightarrow> fl" where
  "window_beta inflation gold_returns window i =
     (let X_window = add_constant (take window (drop i inflation));
          y_window = take window (drop i gold_returns)
      in case OLS_fit y_window X_window of
           Inl e \<Rightarrow> NaN
         | Inr params \<Rightarrow>
             (case param_by_position params 1 of Inl e \<Rightarrow> NaN | Inr b \<Rightarrow> Fin b))"

text \<open>
  \<open>for i in range(len(inflation) - window + 1)\<close> collects one value per \<open>i\<close>, and
  the result is \<open>[np.nan] * (window - 1) + betas\<close>.  A negative range is empty.
\<close>

definition rolling_beta :: "real list \<Rightarrow> real list \<Rightarrow> nat \<Rightarrow> fl list" where
  "rolling_beta inflation gold_returns window =
     replicate (window - 1) NaN
     @ map (window_beta inflation gold_returns window) [0..<length inflation + 1 - window]"

text \<open>
  \<open>df['Rolling_Beta_12m'] = values\<close> for a table of \<open>n\<close> rows: pandas raises
  \<open>ValueError\<close> when the list does not have the length of the table.
\<close>

definition set_column :: "nat \<Rightarrow> fl list \<Rightarrow> exn + fl list" where
  "set_column n values = (if length values = n then Inr values else Inl ValueError)"

text \<open>The three rolling columns of the script, for a table whose two rate columns are
  \<open>inflation\<close> and \<open>gold_returns\<close>.\<close>

record rolling_columns =
  Rolling_Corr_12m :: "fl list"
  Rolling_Corr_24m :: "fl list"
  Rolling_Beta_12m :: "fl list"

definition rolling_statistics ::
  "statistic \<Rightarrow> real list \<Rightarrow> real list \<Rightarrow> exn + rolling_columns" where
  "rolling_statistics window_corr inflation gold_returns =
     (case set_column (length inflation) (rolling_beta inflation gold_returns 12) of
        Inl e \<Rightarrow> Inl e
      | Inr betas \<Rightarrow>
          Inr \<lparr>Rolling_Corr_12m = rolling_corr window_corr 12 inflation gold_returns,
               Rolling_Corr_24m = rolling_corr window_corr 24 inflation gold_returns,
               Rolling_Beta_12m = betas\<rparr>)"

subsection \<open>Sample tables\<close>

definition obs :: "date \<Rightarrow> real \<Rightarrow> observation" where
  "obs d v = \<lparr>obs_Date = d, obs_value = Fin v, obs_other = []\<rparr>"

definition row :: "date \<Rightarrow> real \<Rightarrow> real \<Rightarrow> merged_row" where
  "row d p c = \<lparr>Date = d, Price = Fin p, CPI_Combined = Fin c, gold_other = [], cpi_other = []\<rparr>"

text \<open>Three months of prices, out of order, and three months of the index, one of them
  a month the price table lacks.\<close>

definition sample_gold :: "observation list" where
  "sample_gold = [obs (ymd 2023 3 1) 99, obs (ymd 2023 1 1) 100, obs (ymd 2023 2 1) 110]"

definition sample_cpi :: "observation list" where
  "sample_cpi = [obs (ymd 2023 2 1) 102, obs (ymd 2023 4 1) 104, obs (ymd 2023 1 1) 100]"


text \<open>The same months with the index at zero in February.\<close>

definition zero_index_table :: "merged_row list" where
  "zero_index_table =
     [row (ymd 2023 1 1) 100 100, row (ymd 2023 2 1) 110 0, row (ymd 2023 3 1) 99 50]"

text \<open>Four months; the price file has one more column, which is empty in March.\<close>

definition missing_cell_table :: "merged_row list" where
  "missing_cell_table =
     [(row (ymd 2023 1 1) 100 100)\<lparr>gold_other := [Present ''1.2K'']\<rparr>,
      (row (ymd 2023 2 1) 110 102)\<lparr>gold_other := [Present ''0.9K'']\<rparr>,
      (row (ymd 2023 3 1) 99 103)\<lparr>gold_other := [Missing]\<rparr>,
      (row (ymd 2023 4 1) 120 104)\<lparr>gold_other := [Present ''1.5K'']\<rparr>]"

text \<open>
  What \<open>pd.to_datetime\<close> does on the one-row column \<open>01/02/2020\<close>: the format
  \<open>%d/%m/%Y\<close> reads the first of February, the other three formats do not match, and
  without a format the month is read first (\<open>dayfirst=False\<close>), which gives the second
  of January.  Other columns do not matter here.
\<close>

definition sample_to_datetime :: to_datetime where
  "sample_to_datetime fmt col =
     (if col = [''01/02/2020''] then
        (case fmt of
           None \<Rightarrow> Inr [ymd 2020 1 2]
         | Some f \<Rightarrow> if f = ''%d/%m/%Y'' then Inr [ymd 2020 2 1] else Inl ValueError)
      else Inl ValueError)"


section \<open>Facts about the merger\<close>

lemma date_key_inj: "date_key a = date_key b \<Longrightarrow> a = b"
  by (cases a, cases b) (simp add: date_key_def)

lemma Date_join_rows: "Date (join_rows g c) = obs_Date g"
  by (simp add: join_rows_def)

lemma set_merge_inner:
  "set (merge_inner df_gold df_cpi) =
     {join_rows g c | g c. g \<in> set df_gold \<and> c \<in> set df_cpi \<and> obs_Date c = obs_Date g}"
  by (auto simp add: merge_inner_def)

lemma Dates_merge_inner:
  "Date ` set (merge_inner df_gold df_cpi) = obs_Date ` set df_gold \<inter> obs_Date ` set df_cpi"
proof (rule set_eqI)
  fix k
  show "k \<in> Date ` set (merge_inner df_gold df_cpi)
      \<longleftrightarrow> k \<in> obs_Date ` set df_gold \<inter> obs_Date ` set df_cpi"
  proof
    assume "k \<in> Date ` set (merge_inner df_gold df_cpi)"
    then obtain g c where "g \<in> set df_gold" "c \<in> set df_cpi"
        "obs_Date c = obs_Date g" "k = Date (join_rows g c)"
      unfolding set_merge_inner by blast
    then show "k \<in> obs_Date ` set df_gold \<inter> obs_Date ` set df_cpi"
      by (simp add: Date_join_rows image_iff) metis
  next
    assume "k \<in> obs_Date ` set df_gold \<inter> obs_Date ` set df_cpi"
    then obtain g c where gc: "g \<in> set df_gold" "c \<in> set df_cpi"
        "k = obs_Date g" "k = obs_Date c"
      by blast
    then have "join_rows g c \<in> set (merge_inner df_gold df_cpi)"
      unfolding set_merge_inner by auto
    then have "Date (join_rows g c) \<in> Date ` set (merge_inner df_gold df_cpi)"
      by (rule imageI)
    with gc show "k \<in> Date ` set (merge_inner df_gold df_cpi)"
      by (simp add: Date_join_rows)
  qed
qed

lemma filter_key_short:
  "distinct (map obs_Date cs) \<Longrightarrow> length (filter (\<lambda>c. obs_Date c = k) cs) \<le> 1"
proof (induction cs)
  case Nil
  then show ?case by simp
next
  case (Cons c cs)
  show ?case
  proof (cases "obs_Date c = k")
    case True
    with Cons.prems have "filter (\<lambda>c. obs_Date c = k) cs = []"
      by (auto simp add: filter_empty_conv image_iff)
    with True show ?thesis by simp
  next
    case False
    with Cons show ?thesis by simp
  qed
qed

lemma distinct_merge_inner:
  assumes "distinct (map obs_Date df_cpi)"
  shows "distinct (map obs_Date df_gold) \<Longrightarrow> distinct (map Date (merge_inner df_gold df_cpi))"
proof (induction df_gold)
  case Nil
  then show ?case by (simp add: merge_inner_def)
next
  case (Cons g gs)
  let ?m = "filter (\<lambda>c. obs_Date c = obs_Date g) df_cpi"
  have split: "merge_inner (g # gs) df_cpi = map (join_rows g) ?m @ merge_inner gs df_cpi"
    by (simp add: merge_inner_def)
  have short: "length ?m \<le> 1"
    using assms by (rule filter_key_short)
  have head: "distinct (map Date (map (join_rows g) ?m))"
    using short by (cases ?m) (auto simp add: Date_join_rows)
  have tail: "distinct (map Date (merge_inner gs df_cpi))"
    using Cons by simp
  have "set (map Date (map (join_rows g) ?m)) \<subseteq> {obs_Date g}"
    by (auto simp add: Date_join_rows)
  moreover have "obs_Date g \<notin> set (map Date (merge_inner gs df_cpi))"
    using Cons.prems by (simp add: Dates_merge_inner)
  ultimately have "set (map Date (map (join_rows g) ?m)) \<inter> set (map Date (merge_inner gs df_cpi)) = {}"
    by blast
  with head tail show ?case
    unfolding split by (simp only: map_append distinct_append simp_thms)
qed

lemma set_merge_inner_cong:
  assumes "mset gs' = mset gs" and "mset cs' = mset cs"
  shows "set (merge_inner gs' cs') = set (merge_inner gs cs)"
proof -
  have "set gs' = set gs" "set cs' = set cs"
    using assms by (auto dest: mset_eq_setD)
  then show ?thesis by (simp add: set_merge_inner)
qed

lemma distinct_Date_sort_values:
  "distinct (map Date (sort_values_Date df)) = distinct (map Date df)"
proof -
  have "mset (map Date (sort_values_Date df)) = mset (map Date df)"
    by (simp add: sort_values_Date_def)
  then show ?thesis by (rule mset_eq_imp_distinct_iff)
qed

lemma strict_keys_sort_values:
  assumes "distinct (map Date df)"
  shows "sorted_wrt (<) (map (\<lambda>r. date_key (Date r)) (sort_values_Date df))"
proof -
  let ?ks = "map (\<lambda>r. date_key (Date r)) (sort_values_Date df)"
  have "sorted ?ks"
    by (simp add: sort_values_Date_def)
  moreover have "distinct ?ks"
  proof -
    have "distinct (map Date (sort_values_Date df))"
      using assms by (simp add: distinct_Date_sort_values)
    moreover have "inj_on date_key (set (map Date (sort_values_Date df)))"
      by (rule inj_onI) (rule date_key_inj)
    ultimately have "distinct (map date_key (map Date (sort_values_Date df)))"
      by (simp only: distinct_map simp_thms)
    then show ?thesis by (simp add: comp_def)
  qed
  ultimately show ?thesis by (simp add: strict_sorted_iff)
qed

text \<open>A table whose keys are strictly increasing is determined by its set of rows.\<close>

lemma strict_keys_unique:
  fixes f :: "'a \<Rightarrow> 'k::linorder"
  assumes "sorted_wrt (<) (map f xs)" and "sorted_wrt (<) (map f ys)" and "set xs = set ys"
  shows "xs = ys"
proof -
  have sx: "sorted (map f xs)" "distinct (map f xs)" and sy: "sorted (map f ys)" "distinct (map f ys)"
    using assms(1,2) by (simp_all add: strict_sorted_iff)
  have "set (map f xs) = set (map f ys)"
    using assms(3) by simp
  with sx sy have keys: "map f xs = map f ys"
    by (rule_tac sorted_distinct_set_unique)
  have "inj_on f (set xs \<union> set ys)"
    using sx(2) assms(3) by (simp add: distinct_map)
  with keys show ?thesis
    by (rule_tac inj_on_map_eq_map [THEN iffD1])
qed

text \<open>
  Claim C1.  For two input tables in which every month key occurs once (in any row
  order), the merged and sorted table holds exactly the month keys present in both
  tables, its keys are strictly increasing (so it is sorted ascending and has no
  duplicate key), and it does not depend on the order of the input rows.
\<close>

theorem merged_keys_strictly_increasing:
  assumes "distinct (map obs_Date df_gold)" and "distinct (map obs_Date df_cpi)"
  shows "set (map Date (merge_and_sort df_gold df_cpi))
           = set (map obs_Date df_gold) \<inter> set (map obs_Date df_cpi)
       \<and> sorted_wrt (<) (map (\<lambda>r. date_key (Date r)) (merge_and_sort df_gold df_cpi))
       \<and> distinct (map Date (merge_and_sort df_gold df_cpi))
       \<and> (\<forall>gold' cpi'. mset gold' = mset df_gold \<and> mset cpi' = mset df_cpi
             \<longrightarrow> merge_and_sort gold' cpi' = merge_and_sort df_gold df_cpi)"
proof -
  have d: "distinct (map Date (merge_inner df_gold df_cpi))"
    using assms by (simp add: distinct_merge_inner)
  have keys: "set (map Date (merge_and_sort df_gold df_cpi))
           = set (map obs_Date df_gold) \<inter> set (map obs_Date df_cpi)"
    by (simp add: merge_and_sort_def sort_values_Date_def Dates_merge_inner)
  have strict: "sorted_wrt (<) (map (\<lambda>r. date_key (Date r)) (merge_and_sort df_gold df_cpi))"
    unfolding merge_and_sort_def using d by (rule strict_keys_sort_values)
  have dist: "distinct (map Date (merge_and_sort df_gold df_cpi))"
    unfolding merge_and_sort_def using d by (simp add: distinct_Date_sort_values)
  have perm: "merge_and_sort gold' cpi' = merge_and_sort df_gold df_cpi"
    if p: "mset gold' = mset df_gold" "mset cpi' = mset df_cpi" for gold' cpi'
  proof -
    have mg: "mset (map obs_Date gold') = mset (map obs_Date df_gold)"
      using p(1) by simp
    have mc: "mset (map obs_Date cpi') = mset (map obs_Date df_cpi)"
      using p(2) by simp
    have "distinct (map obs_Date gold')"
      using mset_eq_imp_distinct_iff [OF mg] assms(1) by simp
    moreover have "distinct (map obs_Date cpi')"
      using mset_eq_imp_distinct_iff [OF mc] assms(2) by simp
    ultimately have "distinct (map obs_Date gold')" "distinct (map obs_Date cpi')"
      by simp_all
    then have "distinct (map Date (merge_inner gold' cpi'))"
      by (simp add: distinct_merge_inner)
    then have "sorted_wrt (<) (map (\<lambda>r. date_key (Date r)) (merge_and_sort gold' cpi'))"
      unfolding merge_and_sort_def by (rule strict_keys_sort_values)
    moreover have "set (merge_and_sort gold' cpi') = set (merge_and_sort df_gold df_cpi)"
      using set_merge_inner_cong [OF p] by (simp add: merge_and_sort_def sort_values_Date_def)
    ultimately show ?thesis
      using strict by (rule_tac strict_keys_unique)
  qed
  from keys strict dist perm show ?thesis by blast
qed

theorem merged_keys_strictly_increasing_witness:
  "set (map Date (merge_and_sort sample_gold sample_cpi))
           = set (map obs_Date sample_gold) \<inter> set (map obs_Date sample_cpi)
       \<and> sorted_wrt (<) (map (\<lambda>r. date_key (Date r)) (merge_and_sort sample_gold sample_cpi))
       \<and> distinct (map Date (merge_and_sort sample_gold sample_cpi))
       \<and> merge_and_sort (rev sample_gold) (rev sample_cpi) = merge_and_sort sample_gold sample_cpi
       \<and> merge_and_sort sample_gold sample_cpi
           = [row (ymd 2023 1 1) 100 100, row (ymd 2023 2 1) 110 102]"
proof -
  have g: "distinct (map obs_Date sample_gold)"
    by (simp add: sample_gold_def obs_def ymd_def)
  have c: "distinct (map obs_Date sample_cpi)"
    by (simp add: sample_cpi_def obs_def ymd_def)
  note th = merged_keys_strictly_increasing [OF g c]
  have "mset (rev sample_gold) = mset sample_gold \<and> mset (rev sample_cpi) = mset sample_cpi"
    by simp
  with th have r: "merge_and_sort (rev sample_gold) (rev sample_cpi) = merge_and_sort sample_gold sample_cpi"
    by blast
  have v: "merge_and_sort sample_gold sample_cpi
           = [row (ymd 2023 1 1) 100 100, row (ymd 2023 2 1) 110 102]"
    by (simp add: merge_and_sort_def sort_values_Date_def merge_inner_def join_rows_def
        sample_gold_def sample_cpi_def obs_def ymd_def row_def date_key_def)
  from th r v show ?thesis by blast
qed

section \<open>Facts about the gap check\<close>

lemma date_diffs_nth:
  "Suc i < length df \<Longrightarrow>
     date_diffs df ! i = days_from_civil (Date (df ! Suc i)) - days_from_civil (Date (df ! i))"
  by (simp add: date_diffs_def nth_tl)

lemma length_date_diffs: "length (date_diffs df) = length df - 1"
  by (simp add: date_diffs_def)

lemma gap_exists_iff:
  "list_ex (\<lambda>d. d > 50) (date_diffs df)
     \<longleftrightarrow> (\<exists>i. Suc i < length df \<and>
            days_from_civil (Date (df ! Suc i)) - days_from_civil (Date (df ! i)) > 50)"
proof
  assume "list_ex (\<lambda>d. d > 50) (date_diffs df)"
  then obtain i where i: "i < length (date_diffs df)" "date_diffs df ! i > 50"
    by (auto simp add: list_ex_iff in_set_conv_nth)
  then have "Suc i < length df"
    by (simp add: length_date_diffs)
  with i(2) show "\<exists>i. Suc i < length df \<and>
            days_from_civil (Date (df ! Suc i)) - days_from_civil (Date (df ! i)) > 50"
    by (auto simp add: date_diffs_nth)
next
  assume "\<exists>i. Suc i < length df \<and>
            days_from_civil (Date (df ! Suc i)) - days_from_civil (Date (df ! i)) > 50"
  then obtain i where i: "Suc i < length df"
      "days_from_civil (Date (df ! Suc i)) - days_from_civil (Date (df ! i)) > 50"
    by blast
  then have "i < length (date_diffs df)" "date_diffs df ! i > 50"
    by (simp_all add: length_date_diffs date_diffs_nth)
  then show "list_ex (\<lambda>d. d > 50) (date_diffs df)"
    unfolding list_ex_iff using nth_mem by blast
qed

text \<open>
  Claim C8.  The gap check gives the warning exactly when some difference between the
  keys of neighbouring rows exceeds 50 days, and the all-clear message otherwise; a pair
  of rows 70 days apart gives the warning and a pair 31 days apart does not; in either
  case the table is handed on unchanged (nothing is raised).
\<close>

theorem gap_warning_iff:
  "(fst (check_gaps df) = WARNING_Possible_date_gaps
      \<longleftrightarrow> (\<exists>i. Suc i < length df \<and>
            days_from_civil (Date (df ! Suc i)) - days_from_civil (Date (df ! i)) > 50))
   \<and> (fst (check_gaps df) = OK_Date_sequence_looks_correct
      \<longleftrightarrow> (\<forall>i. Suc i < length df \<longrightarrow>
            days_from_civil (Date (df ! Suc i)) - days_from_civil (Date (df ! i)) \<le> 50))
   \<and> snd (check_gaps df) = df
   \<and> (days_from_civil (Date b) - days_from_civil (Date a) = 70
        \<longrightarrow> fst (check_gaps [a, b]) = WARNING_Possible_date_gaps)
   \<and> (days_from_civil (Date b) - days_from_civil (Date a) = 31
        \<longrightarrow> fst (check_gaps [a, b]) = OK_Date_sequence_looks_correct)"
proof -
  have w: "fst (check_gaps df) = WARNING_Possible_date_gaps
      \<longleftrightarrow> (\<exists>i. Suc i < length df \<and>
            days_from_civil (Date (df ! Suc i)) - days_from_civil (Date (df ! i)) > 50)"
    by (simp add: check_gaps_def gap_exists_iff)
  have "fst (check_gaps df) = OK_Date_sequence_looks_correct
      \<longleftrightarrow> \<not> (\<exists>i. Suc i < length df \<and>
            days_from_civil (Date (df ! Suc i)) - days_from_civil (Date (df ! i)) > 50)"
    by (simp add: check_gaps_def gap_exists_iff)
  then have ok: "fst (check_gaps df) = OK_Date_sequence_looks_correct
      \<longleftrightarrow> (\<forall>i. Suc i < length df \<longrightarrow>
            days_from_civil (Date (df ! Suc i)) - days_from_civil (Date (df ! i)) \<le> 50)"
    by (metis not_less)
  have same: "snd (check_gaps df) = df"
    by (simp add: check_gaps_def)
  have two: "fst (check_gaps [a, b]) = WARNING_Possible_date_gaps
      \<longleftrightarrow> days_from_civil (Date b) - days_from_civil (Date a) > 50"
    by (simp add: check_gaps_def date_diffs_def)
  have two_ok: "fst (check_gaps [a, b]) = OK_Date_sequence_looks_correct
      \<longleftrightarrow> \<not> days_from_civil (Date b) - days_from_civil (Date a) > 50"
    by (simp add: check_gaps_def date_diffs_def)
  from w ok same two two_ok show ?thesis by simp
qed

theorem gap_warning_iff_witness:
  "days_from_civil (ymd 2023 3 12) - days_from_civil (ymd 2023 1 1) = 70
   \<and> fst (check_gaps [row (ymd 2023 1 1) 100 100, row (ymd 2023 3 12) 110 102])
       = WARNING_Possible_date_gaps
   \<and> days_from_civil (ymd 2023 2 1) - days_from_civil (ymd 2023 1 1) = 31
   \<and> fst (check_gaps [row (ymd 2023 1 1) 100 100, row (ymd 2023 2 1) 110 102])
       = OK_Date_sequence_looks_correct
   \<and> snd (check_gaps [row (ymd 2023 1 1) 100 100, row (ymd 2023 3 12) 110 102])
       = [row (ymd 2023 1 1) 100 100, row (ymd 2023 3 12) 110 102]"
proof -
  have d70: "days_from_civil (ymd 2023 3 12) - days_from_civil (ymd 2023 1 1) = 70"
    by (simp add: days_from_civil_def ymd_def)
  have d31: "days_from_civil (ymd 2023 2 1) - days_from_civil (ymd 2023 1 1) = 31"
    by (simp add: days_from_civil_def ymd_def)
  have D: "Date (row d p c) = d" for d p c
    by (simp add: row_def)
  note a = gap_warning_iff [of "[row (ymd 2023 1 1) 100 100, row (ymd 2023 3 12) 110 102]"
      "row (ymd 2023 3 12) 110 102" "row (ymd 2023 1 1) 100 100"]
  note b = gap_warning_iff [of "[row (ymd 2023 1 1) 100 100, row (ymd 2023 2 1) 110 102]"
      "row (ymd 2023 2 1) 110 102" "row (ymd 2023 1 1) 100 100"]
  from a d70 have w: "fst (check_gaps [row (ymd 2023 1 1) 100 100, row (ymd 2023 3 12) 110 102])
       = WARNING_Possible_date_gaps"
    by (simp only: D simp_thms)
  from b d31 have k: "fst (check_gaps [row (ymd 2023 1 1) 100 100, row (ymd 2023 2 1) 110 102])
       = OK_Date_sequence_looks_correct"
    by (simp only: D simp_thms)
  from a have s: "snd (check_gaps [row (ymd 2023 1 1) 100 100, row (ymd 2023 3 12) 110 102])
       = [row (ymd 2023 1 1) 100 100, row (ymd 2023 3 12) 110 102]"
    by (rule_tac conjunct1 [OF conjunct2 [OF conjunct2]])
  from d70 w d31 k s show ?thesis by (simp only: simp_thms)
qed

section \<open>Facts about the Return Calculator\<close>

lemma length_shift1: "length (shift1 xs) = length xs"
  by (simp add: shift1_def)

lemma shift1_nth:
  "i < length xs \<Longrightarrow> shift1 xs ! i = (if i = 0 then NaN else xs ! (i - 1))"
  by (cases i) (simp_all add: shift1_def)

lemma length_pct_change: "length (pct_change xs) = length xs"
  by (simp add: pct_change_def length_shift1)

lemma pct_change_nth:
  "i < length xs \<Longrightarrow>
     pct_change xs ! i = fl_sub (fl_div (xs ! i) (if i = 0 then NaN else xs ! (i - 1))) (Fin 1)"
  by (simp add: pct_change_def length_shift1 shift1_nth)

lemma fl_div_NaN: "fl_div x NaN = NaN"
  by (cases x) simp_all

lemma pct_change_0: "0 < length xs \<Longrightarrow> pct_change xs ! 0 = NaN"
  by (simp add: pct_change_nth fl_div_NaN)

lemma length_add_returns: "length (add_returns df) = length df"
  by (simp add: add_returns_def length_pct_change)

lemma add_returns_nth:
  "i < length df \<Longrightarrow>
     add_returns df ! i =
       with_rates (df ! i) (fl_mul (pct_change (map CPI_Combined df) ! i) (Fin 100))
         (fl_mul (pct_change (map Price df) ! i) (Fin 100))"
  by (simp add: add_returns_def length_pct_change)



lemma fl_mul_NaN_left: "fl_mul NaN x = NaN"
  by (cases x) simp_all

lemma rate_first_row: "0 < length xs \<Longrightarrow> fl_mul (pct_change xs ! 0) (Fin 100) = NaN"
  by (simp add: pct_change_0 fl_mul_NaN_left)

lemma rate_regular:
  assumes "0 < i" and "i < length xs" and "xs ! (i - 1) = Fin p" and "p \<noteq> 0" and "xs ! i = Fin q"
  shows "fl_mul (pct_change xs ! i) (Fin 100) = Fin ((q - p) / p * 100)"
proof -
  have "pct_change xs ! i = fl_sub (fl_div (Fin q) (Fin p)) (Fin 1)"
    using assms by (simp add: pct_change_nth)
  also have "\<dots> = Fin (q / p - 1)"
    using assms(4) by simp
  finally have "fl_mul (pct_change xs ! i) (Fin 100) = Fin ((q / p - 1) * 100)"
    by simp
  moreover have "(q / p - 1) * 100 = (q - p) / p * 100"
    using assms(4) by (simp add: field_simps)
  ultimately show ?thesis by simp
qed

lemma rate_zero_previous:
  assumes "0 < i" and "i < length xs" and "xs ! (i - 1) = Fin 0" and "xs ! i = Fin q"
  shows "fl_mul (pct_change xs ! i) (Fin 100) = (if 0 < q then PInf else if q < 0 then NInf else NaN)"
  using assms by (simp add: pct_change_nth)


lemma base_columns_add_returns:
  "i < length df \<Longrightarrow>
     Date (add_returns df ! i) = Date (df ! i) \<and> Price (add_returns df ! i) = Price (df ! i)
     \<and> CPI_Combined (add_returns df ! i) = CPI_Combined (df ! i)
     \<and> gold_other (add_returns df ! i) = gold_other (df ! i)
     \<and> cpi_other (add_returns df ! i) = cpi_other (df ! i)"
  by (simp add: add_returns_nth with_rates_def)

lemma Inflation_Rate_add_returns:
  "i < length df \<Longrightarrow>
     Inflation_Rate (add_returns df ! i) = fl_mul (pct_change (map CPI_Combined df) ! i) (Fin 100)"
  by (simp add: add_returns_nth with_rates_def)

lemma Gold_Returns_add_returns:
  "i < length df \<Longrightarrow>
     Gold_Returns (add_returns df ! i) = fl_mul (pct_change (map Price df) ! i) (Fin 100)"
  by (simp add: add_returns_nth with_rates_def)

lemma in_return_calculator:
  "r \<in> set (return_calculator df) \<longleftrightarrow> r \<in> set (add_returns df) \<and> \<not> row_has_na r"
  by (auto simp add: return_calculator_def dropna_def)




text \<open>
  Claim C6, as amended.  When a previous value (of the index column or of the price
  column) is exactly zero, nothing is raised and the percentage change of the next row
  is never a finite number, so never zero: it is plus or minus infinity, by the sign of
  the current value, and it is the missing-value marker only when the current value is
  zero as well, in which case the row is removed from the output.  The table keeps its
  length and every value with a nonzero previous value is computed as usual.
\<close>

theorem zero_previous_value:
  assumes cols: "(col, rate) = (CPI_Combined, Inflation_Rate) \<or> (col, rate) = (Price, Gold_Returns)"
    and i: "Suc i < length df"
    and prev: "col (df ! i) = Fin 0"
    and cur: "col (df ! Suc i) = Fin c"
  shows "rate (add_returns df ! Suc i) = (if 0 < c then PInf else if c < 0 then NInf else NaN)
       \<and> (\<forall>v. rate (add_returns df ! Suc i) \<noteq> Fin v)
       \<and> (c \<noteq> 0 \<longrightarrow> \<not> isna (rate (add_returns df ! Suc i)))
       \<and> (c = 0 \<longrightarrow> add_returns df ! Suc i \<notin> set (return_calculator df))
       \<and> length (add_returns df) = length df
       \<and> (\<forall>j p q. Suc j < length df \<and> col (df ! j) = Fin p \<and> p \<noteq> 0 \<and> col (df ! Suc j) = Fin q
             \<longrightarrow> rate (add_returns df ! Suc j) = Fin ((q - p) / p * 100))"
proof -
  have rate: "rate (add_returns df ! k) = fl_mul (pct_change (map col df) ! k) (Fin 100)"
    if "k < length df" for k
    using cols that by (auto simp add: Inflation_Rate_add_returns Gold_Returns_add_returns)
  have na: "isna (rate r) \<Longrightarrow> row_has_na r" for r
    using cols by (auto simp add: row_has_na_def)
  have v: "rate (add_returns df ! Suc i) = (if 0 < c then PInf else if c < 0 then NInf else NaN)"
    using i prev cur by (simp add: rate rate_zero_previous)
  then have nofin: "\<forall>v. rate (add_returns df ! Suc i) \<noteq> Fin v"
    by simp
  from v have kept: "c \<noteq> 0 \<longrightarrow> \<not> isna (rate (add_returns df ! Suc i))"
    by (simp add: isna_def)
  from v have "c = 0 \<longrightarrow> isna (rate (add_returns df ! Suc i))"
    by (simp add: isna_def)
  then have dropped: "c = 0 \<longrightarrow> add_returns df ! Suc i \<notin> set (return_calculator df)"
    using na by (auto simp add: in_return_calculator)
  have others: "rate (add_returns df ! Suc j) = Fin ((q - p) / p * 100)"
    if "Suc j < length df" "col (df ! j) = Fin p" "p \<noteq> 0" "col (df ! Suc j) = Fin q" for j p q
    using that by (simp add: rate rate_regular)
  from v nofin kept dropped others show ?thesis
    by (simp add: length_add_returns)
qed

theorem zero_previous_value_witness:
  "CPI_Combined (zero_index_table ! 1) = Fin 0
   \<and> Inflation_Rate (add_returns zero_index_table ! 2) = PInf
   \<and> Inflation_Rate (add_returns zero_index_table ! 1) = Fin (- 100)
   \<and> length (add_returns zero_index_table) = 3"
proof -
  have i: "Suc 1 < length zero_index_table"
    by (simp add: zero_index_table_def)
  have prev: "CPI_Combined (zero_index_table ! 1) = Fin 0"
    by (simp add: zero_index_table_def row_def)
  have cur: "CPI_Combined (zero_index_table ! Suc 1) = Fin 50"
    by (simp add: zero_index_table_def row_def)
  have first: "CPI_Combined (zero_index_table ! 0) = Fin 100"
    by (simp add: zero_index_table_def row_def)
  note th = zero_previous_value [of CPI_Combined Inflation_Rate, OF _ i prev cur]
  have a: "Inflation_Rate (add_returns zero_index_table ! 2) = PInf"
    using th by (simp add: numeral_2_eq_2)
  have "Suc 0 < length zero_index_table \<and> CPI_Combined (zero_index_table ! 0) = Fin 100
        \<and> (100::real) \<noteq> 0 \<and> CPI_Combined (zero_index_table ! Suc 0) = Fin 0"
    using i prev first by simp
  with th have b: "Inflation_Rate (add_returns zero_index_table ! Suc 0) = Fin ((0 - 100) / 100 * 100)"
    by blast
  have c: "length (add_returns zero_index_table) = 3"
    using th by (simp add: zero_index_table_def)
  from prev a b c show ?thesis by simp
qed

text \<open>
  The claim as it was written fails on \<open>zero_index_table\<close>: the index is zero in
  February, and the March inflation rate is plus infinity, which is not the missing-value
  marker; the March row stays in the output with that value.
\<close>

theorem zero_previous_value_counterexample:
  "CPI_Combined (zero_index_table ! 1) = Fin 0
   \<and> Inflation_Rate (add_returns zero_index_table ! 2) = PInf
   \<and> \<not> isna (Inflation_Rate (add_returns zero_index_table ! 2))
   \<and> map Inflation_Rate (return_calculator zero_index_table) = [Fin (- 100), PInf]"
  by (simp add: zero_index_table_def row_def return_calculator_def dropna_def add_returns_def
      pct_change_def shift1_def with_rates_def row_has_na_def isna_def)

text \<open>
  Claim C10.  The output of the Return Calculator consists exactly of the rows of the
  table (the merged rows with their two rates) in which every column is defined, in their
  order; every row with a missing value in any column is removed, the first row among
  them.
\<close>

theorem dropna_removes_every_undefined_row:
  "(\<forall>r. r \<in> set (return_calculator df) \<longleftrightarrow>
        r \<in> set (add_returns df) \<and> Price r \<noteq> NaN \<and> CPI_Combined r \<noteq> NaN
        \<and> Missing \<notin> set (gold_other r) \<and> Missing \<notin> set (cpi_other r)
        \<and> Inflation_Rate r \<noteq> NaN \<and> Gold_Returns r \<noteq> NaN)
   \<and> subseq (return_calculator df) (add_returns df)
   \<and> length (add_returns df) = length df
   \<and> (\<forall>i < length df. Date (add_returns df ! i) = Date (df ! i)
         \<and> Price (add_returns df ! i) = Price (df ! i)
         \<and> CPI_Combined (add_returns df ! i) = CPI_Combined (df ! i)
         \<and> gold_other (add_returns df ! i) = gold_other (df ! i)
         \<and> cpi_other (add_returns df ! i) = cpi_other (df ! i))
   \<and> (0 < length df \<longrightarrow> add_returns df ! 0 \<notin> set (return_calculator df))"
proof -
  have a: "\<forall>r. r \<in> set (return_calculator df) \<longleftrightarrow>
        r \<in> set (add_returns df) \<and> Price r \<noteq> NaN \<and> CPI_Combined r \<noteq> NaN
        \<and> Missing \<notin> set (gold_other r) \<and> Missing \<notin> set (cpi_other r)
        \<and> Inflation_Rate r \<noteq> NaN \<and> Gold_Returns r \<noteq> NaN"
    by (simp add: in_return_calculator row_has_na_def isna_def)
  have b: "subseq (return_calculator df) (add_returns df)"
    by (simp add: return_calculator_def dropna_def)
  have c: "\<forall>i < length df. Date (add_returns df ! i) = Date (df ! i)
         \<and> Price (add_returns df ! i) = Price (df ! i)
         \<and> CPI_Combined (add_returns df ! i) = CPI_Combined (df ! i)
         \<and> gold_other (add_returns df ! i) = gold_other (df ! i)
         \<and> cpi_other (add_returns df ! i) = cpi_other (df ! i)"
    using base_columns_add_returns by blast
  have "Inflation_Rate (add_returns df ! 0) = NaN" if "0 < length df"
    using that by (simp add: Inflation_Rate_add_returns rate_first_row)
  then have d: "0 < length df \<longrightarrow> add_returns df ! 0 \<notin> set (return_calculator df)"
    by (simp add: in_return_calculator row_has_na_def isna_def)
  from a b c d show ?thesis
    by (simp only: length_add_returns simp_thms)
qed

theorem dropna_removes_every_undefined_row_witness:
  "add_returns missing_cell_table ! 0 \<notin> set (return_calculator missing_cell_table)
   \<and> add_returns missing_cell_table ! 2 \<notin> set (return_calculator missing_cell_table)
   \<and> subseq (return_calculator missing_cell_table) (add_returns missing_cell_table)
   \<and> map Date (return_calculator missing_cell_table) = [ymd 2023 2 1, ymd 2023 4 1]"
proof -
  note th = dropna_removes_every_undefined_row [of missing_cell_table]
  have l: "0 < length missing_cell_table"
    by (simp add: missing_cell_table_def)
  have a: "add_returns missing_cell_table ! 0 \<notin> set (return_calculator missing_cell_table)"
    using th l by blast
  have "gold_other (add_returns missing_cell_table ! 2) = [Missing]"
    by (simp add: missing_cell_table_def add_returns_def pct_change_def shift1_def
        with_rates_def row_def)
  then have "Missing \<in> set (gold_other (add_returns missing_cell_table ! 2))"
    by simp
  with th have b: "add_returns missing_cell_table ! 2 \<notin> set (return_calculator missing_cell_table)"
    by blast
  from th have c: "subseq (return_calculator missing_cell_table) (add_returns missing_cell_table)"
    by blast
  have d: "map Date (return_calculator missing_cell_table) = [ymd 2023 2 1, ymd 2023 4 1]"
    by (simp add: missing_cell_table_def row_def return_calculator_def dropna_def add_returns_def
      pct_change_def shift1_def with_rates_def row_has_na_def isna_def)
  from a b c d show ?thesis by simp
qed

section \<open>Facts about the Date Normalizer\<close>

lemma parse_first_success:
  "k < length fmts \<Longrightarrow> (\<forall>j<k. to_dt (Some (fmts ! j)) col = Inl ValueError) \<Longrightarrow>
     to_dt (Some (fmts ! k)) col = Inr dates \<Longrightarrow> parse_gold_dates to_dt fmts col = Inr dates"
proof (induction fmts arbitrary: k)
  case Nil
  then show ?case by simp
next
  case (Cons f fs)
  show ?case
  proof (cases k)
    case 0
    with Cons.prems show ?thesis by simp
  next
    case (Suc m)
    have head: "to_dt (Some f) col = Inl ValueError"
      using Cons.prems(2) Suc by auto
    have "\<forall>j<m. to_dt (Some (fs ! j)) col = Inl ValueError"
      using Cons.prems(2) Suc by auto
    moreover have "m < length fs" "to_dt (Some (fs ! m)) col = Inr dates"
      using Cons.prems Suc by simp_all
    ultimately have "parse_gold_dates to_dt fs col = Inr dates"
      using Cons.IH by blast
    with head show ?thesis by simp
  qed
qed

lemma parse_all_fail:
  "(\<forall>f \<in> set fmts. to_dt (Some f) col = Inl ValueError) \<Longrightarrow>
     parse_gold_dates to_dt fmts col = to_dt None col"
  by (induction fmts) simp_all

lemma parse_other_exception:
  "k < length fmts \<Longrightarrow> (\<forall>j<k. to_dt (Some (fmts ! j)) col = Inl ValueError) \<Longrightarrow>
     to_dt (Some (fmts ! k)) col = Inl e \<Longrightarrow> e \<noteq> ValueError \<Longrightarrow>
     parse_gold_dates to_dt fmts col = Inl e"
proof (induction fmts arbitrary: k)
  case Nil
  then show ?case by simp
next
  case (Cons f fs)
  show ?case
  proof (cases k)
    case 0
    with Cons.prems show ?thesis by (cases e) simp_all
  next
    case (Suc m)
    have head: "to_dt (Some f) col = Inl ValueError"
      using Cons.prems(2) Suc by auto
    have "\<forall>j<m. to_dt (Some (fs ! j)) col = Inl ValueError"
      using Cons.prems(2) Suc by auto
    moreover have "m < length fs" "to_dt (Some (fs ! m)) col = Inl e"
      using Cons.prems Suc by simp_all
    ultimately have "parse_gold_dates to_dt fs col = Inl e"
      using Cons.IH Cons.prems(4) by blast
    with head show ?thesis by simp
  qed
qed

lemma month_start_fields:
  "year (month_start d) = year d \<and> month (month_start d) = month d \<and> day (month_start d) = 1"
  by (simp add: month_start_def)

text \<open>
  Claim C4, as amended.  The gold date series is tried against the formats
  \<open>%b %Y\<close>, \<open>%b %y\<close>, \<open>%d/%m/%Y\<close>, \<open>%Y-%m-%d\<close> in this order and the
  first format that parses the whole series (every earlier one having raised
  \<open>ValueError\<close>) is used; when all four raise \<open>ValueError\<close> the series is parsed by
  generic inference; an exception other than \<open>ValueError\<close> is not caught.  The CPI
  date series is parsed by generic inference alone, whatever the four formats would make
  of it.  In both cases every parsed date is truncated to the first day of its month.
\<close>

theorem date_formats_in_priority_order:
  "gold_formats = [''%b %Y'', ''%b %y'', ''%d/%m/%Y'', ''%Y-%m-%d'']
   \<and> (\<forall>k dates. k < length gold_formats
          \<and> (\<forall>j<k. to_dt (Some (gold_formats ! j)) col = Inl ValueError)
          \<and> to_dt (Some (gold_formats ! k)) col = Inr dates
        \<longrightarrow> normalize_gold_dates to_dt col = Inr (map month_start dates))
   \<and> (\<forall>k e. k < length gold_formats
          \<and> (\<forall>j<k. to_dt (Some (gold_formats ! j)) col = Inl ValueError)
          \<and> to_dt (Some (gold_formats ! k)) col = Inl e \<and> e \<noteq> ValueError
        \<longrightarrow> normalize_gold_dates to_dt col = Inl e)
   \<and> ((\<forall>f \<in> set gold_formats. to_dt (Some f) col = Inl ValueError)
        \<longrightarrow> normalize_gold_dates to_dt col = normalize_cpi_dates to_dt col)
   \<and> (\<forall>dates. to_dt None col = Inr dates
        \<longrightarrow> normalize_cpi_dates to_dt col = Inr (map month_start dates))
   \<and> (\<forall>e. to_dt None col = Inl e \<longrightarrow> normalize_cpi_dates to_dt col = Inl e)
   \<and> (\<forall>dates. normalize_gold_dates to_dt col = Inr dates \<or> normalize_cpi_dates to_dt col = Inr dates
        \<longrightarrow> (\<forall>d \<in> set dates. day d = 1))
   \<and> year (month_start d) = year d \<and> month (month_start d) = month d \<and> day (month_start d) = 1"
proof -
  have order: "gold_formats = [''%b %Y'', ''%b %y'', ''%d/%m/%Y'', ''%Y-%m-%d'']"
    by (simp add: gold_formats_def)
  have first: "normalize_gold_dates to_dt col = Inr (map month_start dates)"
    if "k < length gold_formats" "\<forall>j<k. to_dt (Some (gold_formats ! j)) col = Inl ValueError"
      "to_dt (Some (gold_formats ! k)) col = Inr dates" for k dates
    using parse_first_success [of k gold_formats to_dt col dates] that
    by (simp add: normalize_gold_dates_def)
  have other: "normalize_gold_dates to_dt col = Inl e"
    if "k < length gold_formats" "\<forall>j<k. to_dt (Some (gold_formats ! j)) col = Inl ValueError"
      "to_dt (Some (gold_formats ! k)) col = Inl e" "e \<noteq> ValueError" for k e
    using parse_other_exception [of k gold_formats to_dt col e] that
    by (simp add: normalize_gold_dates_def)
  have fallback: "normalize_gold_dates to_dt col = normalize_cpi_dates to_dt col"
    if "\<forall>f \<in> set gold_formats. to_dt (Some f) col = Inl ValueError"
    using parse_all_fail [of gold_formats to_dt col] that
    by (simp add: normalize_gold_dates_def normalize_cpi_dates_def)
  have cpi: "normalize_cpi_dates to_dt col = Inr (map month_start dates)"
    if "to_dt None col = Inr dates" for dates
    using that by (simp add: normalize_cpi_dates_def)
  have cpi_err: "normalize_cpi_dates to_dt col = Inl e" if "to_dt None col = Inl e" for e
    using that by (simp add: normalize_cpi_dates_def)
  have trunc: "\<forall>d \<in> set dates. day d = 1"
    if "normalize_gold_dates to_dt col = Inr dates \<or> normalize_cpi_dates to_dt col = Inr dates"
    for dates
    using that
    by (auto simp add: normalize_gold_dates_def normalize_cpi_dates_def month_start_def
        split: sum.splits)
  from order first other fallback cpi cpi_err trunc month_start_fields [of d] show ?thesis
    by blast
qed

theorem date_formats_in_priority_order_witness:
  "normalize_gold_dates sample_to_datetime [''01/02/2020''] = Inr [ymd 2020 2 1]
   \<and> normalize_cpi_dates sample_to_datetime [''01/02/2020''] = Inr [ymd 2020 1 1]
   \<and> day (month_start (ymd 2020 1 2)) = 1"
proof -
  note th = date_formats_in_priority_order
    [of sample_to_datetime "[''01/02/2020'']" "ymd 2020 1 2"]
  have k: "(2::nat) < length gold_formats"
    by (simp add: gold_formats_def)
  have before: "\<forall>j<2. sample_to_datetime (Some (gold_formats ! j)) [''01/02/2020''] = Inl ValueError"
    by (simp add: gold_formats_def sample_to_datetime_def less_Suc_eq numeral_2_eq_2)
  have hit: "sample_to_datetime (Some (gold_formats ! 2)) [''01/02/2020''] = Inr [ymd 2020 2 1]"
    by (simp add: gold_formats_def sample_to_datetime_def)
  from th k before hit
  have "normalize_gold_dates sample_to_datetime [''01/02/2020''] = Inr (map month_start [ymd 2020 2 1])"
    by blast
  then have g: "normalize_gold_dates sample_to_datetime [''01/02/2020''] = Inr [ymd 2020 2 1]"
    by (simp add: month_start_def ymd_def)
  have "sample_to_datetime None [''01/02/2020''] = Inr [ymd 2020 1 2]"
    by (simp add: sample_to_datetime_def)
  with th have "normalize_cpi_dates sample_to_datetime [''01/02/2020''] = Inr (map month_start [ymd 2020 1 2])"
    by blast
  then have c: "normalize_cpi_dates sample_to_datetime [''01/02/2020''] = Inr [ymd 2020 1 1]"
    by (simp add: month_start_def ymd_def)
  from th have "day (month_start (ymd 2020 1 2)) = 1"
    by blast
  with g c show ?thesis by simp
qed

text \<open>
  The claim as it was written (every raw date series is tried against the formats) fails
  for the CPI series: on the column \<open>01/02/2020\<close> the format \<open>%d/%m/%Y\<close> is the
  first that parses, to February 2020, but the CPI dates never meet a format and come
  out as January 2020.
\<close>

theorem date_formats_in_priority_order_counterexample:
  "sample_to_datetime (Some (gold_formats ! 0)) [''01/02/2020''] = Inl ValueError
   \<and> sample_to_datetime (Some (gold_formats ! 1)) [''01/02/2020''] = Inl ValueError
   \<and> sample_to_datetime (Some (gold_formats ! 2)) [''01/02/2020''] = Inr [ymd 2020 2 1]
   \<and> normalize_cpi_dates sample_to_datetime [''01/02/2020''] = Inr [ymd 2020 1 1]
   \<and> normalize_cpi_dates sample_to_datetime [''01/02/2020'']
       \<noteq> Inr (map month_start [ymd 2020 2 1])"
  by (simp add: gold_formats_def sample_to_datetime_def normalize_cpi_dates_def month_start_def
      ymd_def)

section \<open>Facts about the statistics\<close>

lemma length_rolling_beta:
  "length (rolling_beta inflation gold_returns window)
     = (window - 1) + (length inflation + 1 - window)"
  by (simp add: rolling_beta_def)

lemma rolling_beta_head:
  "k < window - 1 \<Longrightarrow> rolling_beta inflation gold_returns window ! k = NaN"
  by (simp add: rolling_beta_def nth_append)

lemma rolling_beta_window:
  assumes "1 \<le> window" and "i + window \<le> length inflation"
  shows "rolling_beta inflation gold_returns window ! (window - 1 + i)
           = window_beta inflation gold_returns window i"
proof -
  have "i < length inflation + 1 - window"
    using assms by arith
  then show ?thesis
    by (simp add: rolling_beta_def nth_append)
qed

lemma sum_list_all_zero: "(\<forall>v \<in> set vs. v = (0::real)) \<Longrightarrow> sum_list vs = 0"
  by (induction vs) simp_all

lemma dev_sum_Nil: "dev_sum [] ys = 0"
  by (simp add: dev_sum_def)

lemma sum_list_const:
  "list_all (\<lambda>v. v = c) xs \<Longrightarrow> sum_list xs = real (length xs) * (c::real)"
  by (induction xs) (simp_all add: algebra_simps)

lemma mean_const:
  assumes "list_all (\<lambda>v. v = c) xs" and "xs \<noteq> []"
  shows "mean xs = c"
  using assms by (simp add: mean_def sum_list_const)

lemma dev_sum_const_left:
  assumes "list_all (\<lambda>v. v = c) xs" and "xs \<noteq> []"
  shows "dev_sum xs ys = 0"
proof -
  have "(x - mean xs) * (y - mean ys) = 0" if "(x, y) \<in> set (zip xs ys)" for x y
  proof -
    have "x \<in> set xs" using that by (rule set_zip_leftD)
    with assms(1) have "x = c" by (simp add: list_all_iff)
    with mean_const [OF assms] show ?thesis by simp
  qed
  then have "\<forall>v \<in> set (map (\<lambda>(x, y). (x - mean xs) * (y - mean ys)) (zip xs ys)). v = 0"
    by auto
  then have "sum_list (map (\<lambda>(x, y). (x - mean xs) * (y - mean ys)) (zip xs ys)) = 0"
    by (rule sum_list_all_zero)
  then show ?thesis
    by (simp add: dev_sum_def)
qed

lemma add_constant_nonzero_const:
  assumes "list_all (\<lambda>v. v = c) xs" and "xs \<noteq> []" and "c \<noteq> 0"
  shows "add_constant xs = No_const xs"
proof -
  have "hd xs = c"
    using assms(1,2) by (cases xs) simp_all
  with assms show ?thesis
    by (simp add: add_constant_def)
qed

lemma add_constant_varying:
  assumes "dev_sum xs xs \<noteq> 0"
  shows "add_constant xs = With_const xs"
proof -
  have "\<not> (xs \<noteq> [] \<and> list_all (\<lambda>v. v = hd xs) xs)"
    using assms dev_sum_const_left [of "hd xs" xs xs] by blast
  then show ?thesis
    by (auto simp add: add_constant_def)
qed

lemma window_beta_nonzero_const:
  assumes "list_all (\<lambda>v. v = c) (take window (drop i inflation))"
    and "take window (drop i inflation) \<noteq> []" and "c \<noteq> 0"
  shows "window_beta inflation gold_returns window i = NaN"
  using add_constant_nonzero_const [OF assms]
  by (simp add: window_beta_def OLS_fit_def param_by_position_def Let_def)

lemma window_beta_varying:
  assumes "dev_sum (take window (drop i inflation)) (take window (drop i inflation)) \<noteq> 0"
    and "length (take window (drop i gold_returns)) = length (take window (drop i inflation))"
  shows "window_beta inflation gold_returns window i
     = Fin (dev_sum (take window (drop i inflation)) (take window (drop i gold_returns))
            / dev_sum (take window (drop i inflation)) (take window (drop i inflation)))"
proof -
  have "take window (drop i inflation) \<noteq> []"
  proof
    assume "take window (drop i inflation) = []"
    then have "dev_sum (take window (drop i inflation)) (take window (drop i inflation)) = 0"
      by (simp only: dev_sum_Nil)
    with assms(1) show False by simp
  qed
  with assms add_constant_varying [OF assms(1)] show ?thesis
    by (simp add: window_beta_def OLS_fit_def param_by_position_def Let_def)
qed

lemma window_beta_raises:
  "OLS_fit (take window (drop i gold_returns)) (add_constant (take window (drop i inflation))) = Inl e
     \<Longrightarrow> window_beta inflation gold_returns window i = NaN"
  by (simp add: window_beta_def)

lemma window_beta_no_slope:
  "OLS_fit (take window (drop i gold_returns)) (add_constant (take window (drop i inflation))) = Inr ps
     \<Longrightarrow> param_by_position ps 1 = Inl e
     \<Longrightarrow> window_beta inflation gold_returns window i = NaN"
  by (simp add: window_beta_def)


text \<open>
  Claim C2, as amended.  For columns of finite values and a window width of at least one
  that fits the input, \<open>rolling_beta\<close> raises nothing and returns one value per row.
  The value at the position of a window depends on that window alone: it is the
  undefined marker when the fit of the window, or the extraction of its slope, raises an
  exception, which is what happens when the inflation values of the window are one
  nonzero constant; it is the least-squares slope when the inflation values of the
  window vary.
\<close>

theorem degenerate_window_gives_nan:
  assumes w: "1 \<le> window" and i: "i + window \<le> length inflation"
    and len: "length gold_returns = length inflation"
    and xw: "xw = take window (drop i inflation)" and yw: "yw = take window (drop i gold_returns)"
  shows "rolling_beta inflation gold_returns window ! (window - 1 + i)
           = window_beta inflation gold_returns window i
       \<and> length (rolling_beta inflation gold_returns window) = length inflation
       \<and> ((\<exists>e. OLS_fit yw (add_constant xw) = Inl e)
            \<longrightarrow> window_beta inflation gold_returns window i = NaN)
       \<and> ((\<exists>ps e. OLS_fit yw (add_constant xw) = Inr ps \<and> param_by_position ps 1 = Inl e)
            \<longrightarrow> window_beta inflation gold_returns window i = NaN)
       \<and> ((\<exists>c. c \<noteq> 0 \<and> list_all (\<lambda>v. v = c) xw)
            \<longrightarrow> window_beta inflation gold_returns window i = NaN)
       \<and> (dev_sum xw xw \<noteq> 0
            \<longrightarrow> window_beta inflation gold_returns window i = Fin (dev_sum xw yw / dev_sum xw xw))"
proof -
  have pos: "rolling_beta inflation gold_returns window ! (window - 1 + i)
           = window_beta inflation gold_returns window i"
    using w i by (rule rolling_beta_window)
  have total: "length (rolling_beta inflation gold_returns window) = length inflation"
    using w i by (simp add: length_rolling_beta)
  have ne: "xw \<noteq> []"
    using w i by (auto simp add: xw)
  have same: "length yw = length xw"
    using len by (simp add: xw yw)
  have raises: "window_beta inflation gold_returns window i = NaN"
    if "\<exists>e. OLS_fit yw (add_constant xw) = Inl e"
    using that window_beta_raises unfolding xw yw by blast
  have no_slope: "window_beta inflation gold_returns window i = NaN"
    if "\<exists>ps e. OLS_fit yw (add_constant xw) = Inr ps \<and> param_by_position ps 1 = Inl e"
    using that window_beta_no_slope unfolding xw yw by blast
  have const: "window_beta inflation gold_returns window i = NaN"
    if "\<exists>c. c \<noteq> 0 \<and> list_all (\<lambda>v. v = c) xw"
    using that ne window_beta_nonzero_const unfolding xw by blast
  have varying: "window_beta inflation gold_returns window i = Fin (dev_sum xw yw / dev_sum xw xw)"
    if "dev_sum xw xw \<noteq> 0"
    using that same window_beta_varying unfolding xw yw by blast
  from pos total raises no_slope const varying show ?thesis
    by blast
qed

theorem degenerate_window_gives_nan_witness:
  "rolling_beta [1, 1, 2] [3, 5, 4] 2 ! 1 = NaN
   \<and> rolling_beta [1, 1, 2] [3, 5, 4] 2 ! 2 = Fin (- 1)
   \<and> length (rolling_beta [1, 1, 2] [3, 5, 4] 2) = 3"
proof -
  have a: "(1::nat) \<le> 2" "0 + 2 \<le> length [1, 1, 2::real]" "1 + 2 \<le> length [1, 1, 2::real]"
    "length [3, 5, 4::real] = length [1, 1, 2::real]"
    by simp_all
  note first = degenerate_window_gives_nan [OF a(1) a(2) a(4) refl refl]
  note second = degenerate_window_gives_nan [OF a(1) a(3) a(4) refl refl]
  have "(1::real) \<noteq> 0 \<and> list_all (\<lambda>v. v = 1) (take 2 (drop 0 [1, 1, 2::real]))"
    by simp
  with first have "rolling_beta [1, 1, 2] [3, 5, 4] 2 ! (2 - 1 + 0) = NaN"
    by metis
  then have x: "rolling_beta [1, 1, 2] [3, 5, 4] 2 ! 1 = NaN"
    by simp
  have d: "dev_sum (take 2 (drop 1 [1, 1, 2::real])) (take 2 (drop 1 [1, 1, 2::real])) = 1 / 2"
    by (simp add: dev_sum_def mean_def power2_eq_square)
  have e: "dev_sum (take 2 (drop 1 [1, 1, 2::real])) (take 2 (drop 1 [3, 5, 4::real])) = - (1 / 2)"
    by (simp add: dev_sum_def mean_def)
  from second d e have "rolling_beta [1, 1, 2] [3, 5, 4] 2 ! (2 - 1 + 1) = Fin (- (1 / 2) / (1 / 2))"
    by simp
  then have y: "rolling_beta [1, 1, 2] [3, 5, 4] 2 ! 2 = Fin (- 1)"
    by (simp add: numeral_2_eq_2)
  from first have z: "length (rolling_beta [1, 1, 2] [3, 5, 4] 2) = 3"
    by simp
  from x y z show ?thesis by simp
qed

text \<open>
  The claim as it was written fails for a window whose inflation values are all zero:
  the constant column is added, the fit solves the rank-deficient system without an
  exception, and the recorded slope is zero, not the undefined marker.
\<close>

theorem degenerate_window_gives_nan_counterexample:
  "dev_sum [0, 0] [0, 0] = 0
   \<and> add_constant [0, 0] = With_const [0, 0]
   \<and> OLS_fit [1, 3] (With_const [0, 0]) = Inr [(''const'', 2), (''Inflation_Rate'', 0)]
   \<and> rolling_beta [0, 0, 1] [1, 3, 2] 2 = [NaN, Fin 0, Fin (- 1)]
   \<and> rolling_beta [0, 0, 1] [1, 3, 2] 2 ! 1 \<noteq> NaN"
  by (simp add: rolling_beta_def window_beta_def add_constant_def OLS_fit_def
      param_by_position_def dev_sum_def mean_def upt_conv_Cons numeral_2_eq_2)

text \<open>
  Claim C3 (output length equals input length, with undefined markers at the first
  \<open>window - 1\<close> positions) does not hold for \<open>rolling_beta\<close> on a table shorter than
  \<open>window - 1\<close>: for five rows and the window of 12 it returns eleven undefined
  markers, and the assignment of the column raises \<open>ValueError\<close>.  The rolling
  correlation of the same table has five entries.
\<close>

theorem rolling_beta_short_input:
  "rolling_beta [1, 2, 3, 4, 5] [2, 1, 4, 3, 6] 12 = replicate 11 NaN
   \<and> length (rolling_beta [1, 2, 3, 4, 5] [2, 1, 4, 3, 6] 12) = 11
   \<and> set_column 5 (rolling_beta [1, 2, 3, 4, 5] [2, 1, 4, 3, 6] 12) = Inl ValueError
   \<and> rolling_statistics window_corr [1, 2, 3, 4, 5] [2, 1, 4, 3, 6] = Inl ValueError
   \<and> length (rolling_corr window_corr 12 [1, 2, 3, 4, 5] [2, 1, 4, 3, 6]) = 5"
  by (simp add: rolling_beta_def set_column_def rolling_statistics_def rolling_corr_def)

lemma fit_two_points:
  assumes "x1 \<noteq> x2"
  shows "OLS_fit [y1, y2] (add_constant [x1, x2]) =
      Inr [(''const'', y1 - (y2 - y1) / (x2 - x1) * x1), (''Inflation_Rate'', (y2 - y1) / (x2 - x1))]"
proof -
  have m: "mean [x1, x2] = (x1 + x2) / 2" "mean [y1, y2] = (y1 + y2) / 2"
    by (simp_all add: mean_def)
  have dxx: "dev_sum [x1, x2] [x1, x2] = (x2 - x1) * (x2 - x1) / 2"
    by (simp add: dev_sum_def m field_simps)
  have dxy: "dev_sum [x1, x2] [y1, y2] = (x2 - x1) * (y2 - y1) / 2"
    by (simp add: dev_sum_def m field_simps)
  have nz: "dev_sum [x1, x2] [x1, x2] \<noteq> 0"
    using assms by (simp add: dxx)
  have d: "x2 - x1 \<noteq> 0"
    using assms by simp
  have cancel: "(d * e / 2) / (d * d / 2) = e / d" if "d \<noteq> 0" for d e :: real
    using that by (simp add: field_simps)
  have b: "dev_sum [x1, x2] [y1, y2] / dev_sum [x1, x2] [x1, x2] = (y2 - y1) / (x2 - x1)"
    unfolding dxx dxy using d by (rule cancel)
  have slope: "y2 - y1 = (y2 - y1) / (x2 - x1) * (x2 - x1)"
    using d by simp
  have line: "(y1 + y2) / 2 - k * ((x1 + x2) / 2) = y1 - k * x1"
    if "y2 - y1 = k * (x2 - x1)" for k :: real
  proof -
    have h: "k * ((x1 + x2) / 2) = (k * x1 + k * x2) / 2"
      by (simp add: algebra_simps)
    from that have "y2 - y1 = k * x2 - k * x1"
      by (simp add: algebra_simps)
    then have "(y1 + y2) / 2 - (k * x1 + k * x2) / 2 = y1 - k * x1"
      by argo
    then show ?thesis by (simp only: h)
  qed
  have a: "mean [y1, y2] - (y2 - y1) / (x2 - x1) * mean [x1, x2] = y1 - (y2 - y1) / (x2 - x1) * x1"
    unfolding m using slope by (rule line)
  have ac: "add_constant [x1, x2] = With_const [x1, x2]"
    using add_constant_varying [OF nz] .
  have "OLS_fit [y1, y2] (With_const [x1, x2]) =
        (let b = dev_sum [x1, x2] [y1, y2] / dev_sum [x1, x2] [x1, x2]
         in Inr [(''const'', mean [y1, y2] - b * mean [x1, x2]), (''Inflation_Rate'', b)])"
    using nz by (simp add: OLS_fit_def)
  then show ?thesis
    by (simp only: ac Let_def b a)
qed

lemma static_fit_two_points:
  assumes "x1 \<noteq> x2"
  shows "static_fit rsquared pvalue [x1, x2] [y1, y2] =
     Inr \<lparr>r_squared = rsquared [x1, x2] [y1, y2],
          beta = (y2 - y1) / (x2 - x1),
          beta_pvalue = pvalue [x1, x2] [y1, y2],
          alpha = y1 - (y2 - y1) / (x2 - x1) * x1\<rparr>"
proof -
  define A B where "A = y1 - (y2 - y1) / (x2 - x1) * x1" and "B = (y2 - y1) / (x2 - x1)"
  have fit: "OLS_fit [y1, y2] (add_constant [x1, x2]) = Inr [(''const'', A), (''Inflation_Rate'', B)]"
    using fit_two_points [OF assms] by (simp only: A_def B_def)
  have "static_fit rsquared pvalue [x1, x2] [y1, y2] =
      Inr \<lparr>r_squared = rsquared [x1, x2] [y1, y2], beta = B,
           beta_pvalue = pvalue [x1, x2] [y1, y2], alpha = A\<rparr>"
    by (simp add: static_fit_def fit model_summary_def param_by_name_def)
  then show ?thesis
    by (simp only: A_def B_def)
qed

lemma static_fit_single_pair:
  "static_fit rsquared pvalue [x1] [y1] = Inl ValueError"
  by (simp add: static_fit_def add_constant_def OLS_fit_def model_summary_def)

text \<open>
  Claim C7, as amended.  The static fit is not held to a minimum of three pairs and raises
  no error of its own: with two pairs of different inflation rates it returns a result,
  the line through the two points.  With a single pair it fails, with the
  \<open>ValueError\<close> that the summary of the fitted model raises.
\<close>

theorem static_fit_needs_two_pairs:
  "(x1 \<noteq> x2 \<longrightarrow>
        static_fit rsquared pvalue [x1, x2] [y1, y2] =
          Inr \<lparr>r_squared = rsquared [x1, x2] [y1, y2],
               beta = (y2 - y1) / (x2 - x1),
               beta_pvalue = pvalue [x1, x2] [y1, y2],
               alpha = y1 - (y2 - y1) / (x2 - x1) * x1\<rparr>)
   \<and> static_fit rsquared pvalue [x1] [y1] = Inl ValueError"
  using static_fit_two_points [of x1 x2 rsquared pvalue y1 y2]
    static_fit_single_pair [of rsquared pvalue x1 y1]
  by blast

theorem static_fit_needs_two_pairs_witness:
  "(\<forall>rsquared pvalue. static_fit rsquared pvalue [1, 2] [10, - 10] =
      Inr \<lparr>r_squared = rsquared [1, 2] [10, - 10], beta = - 20,
           beta_pvalue = pvalue [1, 2] [10, - 10], alpha = 30\<rparr>)
   \<and> (\<forall>rsquared pvalue. static_fit rsquared pvalue [5] [7] = Inl ValueError)"
proof -
  have a: "static_fit rsquared pvalue [1, 2] [10, - 10] =
      Inr \<lparr>r_squared = rsquared [1, 2] [10, - 10], beta = - 20,
           beta_pvalue = pvalue [1, 2] [10, - 10], alpha = 30\<rparr>" for rsquared pvalue
  proof -
    note th = static_fit_needs_two_pairs [of 1 2 rsquared pvalue 10 "- 10"]
    have "(1::real) \<noteq> 2" by simp
    with th have "static_fit rsquared pvalue [1, 2] [10, - 10] =
          Inr \<lparr>r_squared = rsquared [1, 2] [10, - 10],
               beta = (- 10 - 10) / (2 - 1),
               beta_pvalue = pvalue [1, 2] [10, - 10],
               alpha = 10 - (- 10 - 10) / (2 - 1) * 1\<rparr>"
      by blast
    then show ?thesis by simp
  qed
  have c: "static_fit rsquared pvalue [5] [7] = Inl ValueError" for rsquared pvalue
    using static_fit_needs_two_pairs [of 5 2 rsquared pvalue 7 "- 10"] by blast
  from a c show ?thesis by blast
qed

text \<open>
  The claim as it was written (fewer than three pairs give an error instead of a
  result) fails for two pairs.
\<close>

theorem static_fit_needs_two_pairs_counterexample:
  "length [1, 2::real] < 3
   \<and> (\<forall>rsquared pvalue. static_fit rsquared pvalue [1, 2] [10, - 10] =
      Inr \<lparr>r_squared = rsquared [1, 2] [10, - 10], beta = - 20,
           beta_pvalue = pvalue [1, 2] [10, - 10], alpha = 30\<rparr>)"
  by (simp add: static_fit_def add_constant_def OLS_fit_def model_summary_def param_by_name_def
      dev_sum_def mean_def)

subsection \<open>Lengths of the rolling columns\<close>

lemma length_rolling_corr: "length (rolling_corr window_corr window x y) = length x"
  by (simp add: rolling_corr_def)

lemma rolling_corr_head:
  "i + 1 < window \<Longrightarrow> i < length x \<Longrightarrow> rolling_corr window_corr window x y ! i = NaN"
  by (simp add: rolling_corr_def)

lemma length_rolling_beta_fits:
  "1 \<le> window \<Longrightarrow> window - 1 \<le> length inflation \<Longrightarrow>
     length (rolling_beta inflation gold_returns window) = length inflation"
  by (simp add: length_rolling_beta)

end
